theory Spec2Isabelle
  imports Complex_Main
begin

section \<open>Numbers and errors\<close>

text \<open>
  The program computes with Python floats and numpy / JAX arrays. An array is a list.
  Where the code can meet a float that is infinite or NaN (the bounds of a condition, the
  location and scale of a location-scale distribution, the values of a cdf) the float is
  a value of the type \<open>efloat\<close> below, with the IEEE rules for comparison and
  arithmetic; signed zeros and rounding are not modelled. The other numbers are reals:
  the statements about them are about the values the code computes in exact arithmetic.

  Exceptions are values: a function that can raise returns \<open>error + 'a\<close>, the
  exception on the left.
\<close>

datatype error =
  ValueError | IndexError | KeyError | TypeError | AttributeError | FloatingPointError

datatype efloat = FNaN | NegInf | Fin real | PosInf

text \<open>
  The comparisons \<^verbatim>\<open><=\<close> and \<^verbatim>\<open><\<close>: every comparison with NaN is false.
\<close>

fun efloat_le :: "efloat \<Rightarrow> efloat \<Rightarrow> bool" where
  "efloat_le FNaN _ = False"
| "efloat_le _ FNaN = False"
| "efloat_le NegInf _ = True"
| "efloat_le _ PosInf = True"
| "efloat_le (Fin a) (Fin b) = (a \<le> b)"
| "efloat_le _ _ = False"

definition efloat_lt :: "efloat \<Rightarrow> efloat \<Rightarrow> bool" where
  "efloat_lt a b = (efloat_le a b \<and> \<not> efloat_le b a)"

text \<open>
  Arithmetic: NaN propagates, \<open>\<infinity> - \<infinity>\<close>, \<open>0 \<cdot> \<infinity>\<close>, \<open>\<infinity> / \<infinity>\<close> and \<open>0 / 0\<close> are NaN, and a
  non-zero number divided by zero is infinite (the operands are array scalars, for which
  a division by zero does not raise).
\<close>

fun efloat_neg :: "efloat \<Rightarrow> efloat" where
  "efloat_neg FNaN = FNaN"
| "efloat_neg NegInf = PosInf"
| "efloat_neg (Fin a) = Fin (- a)"
| "efloat_neg PosInf = NegInf"

fun efloat_add :: "efloat \<Rightarrow> efloat \<Rightarrow> efloat" where
  "efloat_add FNaN _ = FNaN"
| "efloat_add _ FNaN = FNaN"
| "efloat_add (Fin a) (Fin b) = Fin (a + b)"
| "efloat_add PosInf NegInf = FNaN"
| "efloat_add NegInf PosInf = FNaN"
| "efloat_add PosInf _ = PosInf"
| "efloat_add _ PosInf = PosInf"
| "efloat_add NegInf _ = NegInf"
| "efloat_add _ NegInf = NegInf"

definition efloat_sub :: "efloat \<Rightarrow> efloat \<Rightarrow> efloat" where
  "efloat_sub a b = efloat_add a (efloat_neg b)"

text \<open>The sign of a float that is not NaN: \<open>-1\<close>, \<open>0\<close> or \<open>1\<close>.\<close>

fun efloat_sign :: "efloat \<Rightarrow> int" where
  "efloat_sign FNaN = 0"
| "efloat_sign NegInf = - 1"
| "efloat_sign (Fin a) = (if a < 0 then - 1 else if a = 0 then 0 else 1)"
| "efloat_sign PosInf = 1"

definition signed_inf :: "int \<Rightarrow> efloat" where
  "signed_inf s = (if s = 0 then FNaN else if 0 < s then PosInf else NegInf)"

fun efloat_mul :: "efloat \<Rightarrow> efloat \<Rightarrow> efloat" where
  "efloat_mul FNaN _ = FNaN"
| "efloat_mul _ FNaN = FNaN"
| "efloat_mul (Fin a) (Fin b) = Fin (a * b)"
| "efloat_mul a b = signed_inf (efloat_sign a * efloat_sign b)"

fun efloat_div :: "efloat \<Rightarrow> efloat \<Rightarrow> efloat" where
  "efloat_div FNaN _ = FNaN"
| "efloat_div _ FNaN = FNaN"
| "efloat_div (Fin a) (Fin b) =
     (if b = 0 then signed_inf (efloat_sign (Fin a)) else Fin (a / b))"
| "efloat_div (Fin a) _ = Fin 0"
| "efloat_div a (Fin b) = signed_inf (efloat_sign a * (if b < 0 then - 1 else 1))"
| "efloat_div _ _ = FNaN"

text \<open>
  \<^verbatim>\<open>np.max\<close> of \<^verbatim>\<open>jax.numpy\<close> on an array of two floats: the larger one, and
  NaN when one of them is NaN.
\<close>

definition efloat_max :: "efloat \<Rightarrow> efloat \<Rightarrow> efloat" where
  "efloat_max a b = (if a = FNaN \<or> b = FNaN then FNaN else if efloat_le a b then b else a)"

section \<open>Scale\<close>

text \<open>
  Modelled from the spec: the module \<^verbatim>\<open>scale\<close> (class \<^verbatim>\<open>Scale\<close>) is
  imported by every source file and is not among them. The spec gives a Scale the
  attributes \<open>low\<close> and \<open>high\<close> with the invariant \<open>high > low\<close> (constructing one with
  \<open>high \<le> low\<close> is a configuration error), \<^verbatim>\<open>normalize_point\<close> mapping the true
  domain onto \<open>[0,1]\<close> and \<^verbatim>\<open>denormalize_point\<close> its exact inverse. This is the
  linear variant. The attribute \<^verbatim>\<open>range\<close> read by
  \<^verbatim>\<open>LSDistribution.normalize\<close> is the width \<open>high - low\<close>.
\<close>

record Scale =
  low :: real
  high :: real

definition Scale_init :: "real \<Rightarrow> real \<Rightarrow> error + Scale" where
  "Scale_init lo hi = (if hi \<le> lo then Inl ValueError else Inr \<lparr>low = lo, high = hi\<rparr>)"

text \<open>The scale \<^verbatim>\<open>Scale(0, 1)\<close>, which the constructor accepts.\<close>

definition Scale01 :: Scale where
  "Scale01 = \<lparr>low = 0, high = 1\<rparr>"

definition scale_range :: "Scale \<Rightarrow> real" where
  "scale_range s = high s - low s"

definition normalize_point :: "Scale \<Rightarrow> real \<Rightarrow> real" where
  "normalize_point s x = (x - low s) / scale_range s"

definition denormalize_point :: "Scale \<Rightarrow> real \<Rightarrow> real" where
  "denormalize_point s u = u * scale_range s + low s"

definition normalize_points :: "Scale \<Rightarrow> real list \<Rightarrow> real list" where
  "normalize_points s xs = map (normalize_point s) xs"

definition denormalize_points :: "Scale \<Rightarrow> real list \<Rightarrow> real list" where
  "denormalize_points s us = map (denormalize_point s) us"

text \<open>The same two maps at a float that may be infinite or NaN.\<close>

definition normalize_point_ext :: "Scale \<Rightarrow> efloat \<Rightarrow> efloat" where
  "normalize_point_ext s x = efloat_div (efloat_sub x (Fin (low s))) (Fin (scale_range s))"

definition denormalize_point_ext :: "Scale \<Rightarrow> efloat \<Rightarrow> efloat" where
  "denormalize_point_ext s u = efloat_add (efloat_mul u (Fin (scale_range s))) (Fin (low s))"

section \<open>Destructured values\<close>

text \<open>
  \<^verbatim>\<open>destructure\<close> returns nested Python tuples of class objects, floats, integers
  and arrays, and \<^verbatim>\<open>structure\<close> takes them apart again by position. They are
  values of one type, so that a tuple of the wrong shape is an input like any other.
\<close>

datatype cls = ScaleC | HistogramDistC

datatype pyval =
  PyCls cls | PyFloat real | PyInt nat | PyArr "real list" | PyTup "pyval list"

text \<open>Indexing a tuple or the argument list \<^verbatim>\<open>*params\<close>: out of range raises.\<close>

definition item :: "'a list \<Rightarrow> nat \<Rightarrow> error + 'a" where
  "item xs i = (if i < length xs then Inr (xs ! i) else Inl IndexError)"

text \<open>
  Modelled from the spec: \<^verbatim>\<open>Scale.destructure\<close> is in the absent module. By the
  spec \<^verbatim>\<open>destructure\<close> returns the pair of a static token and a numeric payload;
  the token holds the class and the payload is \<open>(low, high)\<close>.
\<close>

definition Scale_destructure :: "Scale \<Rightarrow> pyval \<times> pyval" where
  "Scale_destructure s = (PyTup [PyCls ScaleC], PyTup [PyFloat (low s), PyFloat (high s)])"

text \<open>Calling a destructured value as a class: \<^verbatim>\<open>params[5](*params[6])\<close>.\<close>

fun call_class :: "pyval \<Rightarrow> pyval \<Rightarrow> error + Scale" where
  "call_class (PyCls ScaleC) (PyTup [PyFloat lo, PyFloat hi]) = Scale_init lo hi"
| "call_class _ _ = Inl TypeError"

definition ebind :: "error + 'a \<Rightarrow> ('a \<Rightarrow> error + 'b) \<Rightarrow> error + 'b" where
  "ebind m f = (case m of Inl e \<Rightarrow> Inl e | Inr v \<Rightarrow> f v)"

section \<open>Array primitives\<close>

fun cumsum_from :: "real \<Rightarrow> real list \<Rightarrow> real list" where
  "cumsum_from acc [] = []"
| "cumsum_from acc (x # xs) = (acc + x) # cumsum_from (acc + x) xs"

definition cumsum :: "real list \<Rightarrow> real list" where
  "cumsum xs = cumsum_from 0 xs"

text \<open>\<^verbatim>\<open>np.linspace(a, b, n)\<close>: \<open>n\<close> evenly spaced points, both ends included.\<close>

definition linspace :: "real \<Rightarrow> real \<Rightarrow> nat \<Rightarrow> real list" where
  "linspace a b n =
     (if n = 1 then [a] else map (\<lambda>i. a + real i * ((b - a) / real (n - 1))) [0..<n])"

text \<open>
  \<^verbatim>\<open>nn.log_softmax\<close>: \<open>x\<^sub>i - ln (\<Sum>\<^sub>j exp x\<^sub>j)\<close>. It first takes the maximum of the
  array, which raises on an empty one.
\<close>

definition log_softmax :: "real list \<Rightarrow> error + real list" where
  "log_softmax xs =
     (if xs = [] then Inl ValueError
      else Inr (map (\<lambda>x. x - ln (sum_list (map exp xs))) xs))"

text \<open>
  \<^verbatim>\<open>nn.softmax\<close>: the exponentials of the entries minus their maximum, divided by
  the sum of these exponentials; the maximum of an empty array raises. The exponential
  of floats is the parameter \<open>fexp\<close>: it is nowhere negative and \<open>1\<close> at \<open>0\<close>, and,
  unlike the real exponential, it may be \<open>0\<close> (underflow far below \<open>0\<close>).
\<close>

definition softmax :: "(real \<Rightarrow> real) \<Rightarrow> real list \<Rightarrow> error + real list" where
  "softmax fexp xs =
     (if xs = [] then Inl ValueError
      else (let unnormalized = map (\<lambda>x. fexp (x - Max (set xs))) xs
            in Inr (map (\<lambda>u. u / sum_list unnormalized) unnormalized)))"

section \<open>The abstract base class (\<^verbatim>\<open>distributions/distribution.py\<close>)\<close>

text \<open>
  \<^verbatim>\<open>Distribution\<close> is an \<^verbatim>\<open>ABC\<close> with five abstract methods. A class that
  derives from it can be instantiated only if it (or a base class) defines all five:
  otherwise every call of the class raises \<^verbatim>\<open>TypeError\<close>, before
  \<^verbatim>\<open>__init__\<close> runs. A class is given by the list of those of the five methods
  that it defines.
\<close>

datatype abstract_method = Mul | Rv | Cdf | Ppf | Sample

definition Distribution_abstractmethods :: "abstract_method list" where
  "Distribution_abstractmethods = [Mul, Rv, Cdf, Ppf, Sample]"

definition instantiate :: "abstract_method list \<Rightarrow> error + unit" where
  "instantiate defined =
     (if list_all (\<lambda>m. m \<in> set defined) Distribution_abstractmethods then Inr ()
      else Inl TypeError)"

section \<open>Histogram distributions (\<^verbatim>\<open>distributions/histogram.py\<close>)\<close>

text \<open>
  \<^verbatim>\<open>HistogramDist\<close> derives from \<^verbatim>\<open>Distribution\<close> alone and defines
  \<^verbatim>\<open>cdf\<close>, \<^verbatim>\<open>ppf\<close>, \<^verbatim>\<open>sample\<close> and \<^verbatim>\<open>rv\<close>, but not
  \<^verbatim>\<open>__mul__\<close>.
\<close>

definition HistogramDist_methods :: "abstract_method list" where
  "HistogramDist_methods = [Cdf, Ppf, Sample, Rv]"

record HistogramDist =
  h_logps :: "real list"
  h_ps :: "real list"
  h_cum_ps :: "real list"
  h_normed_bins :: "real list"
  h_size :: nat
  h_scale :: Scale
  h_true_bins :: "real list option"

text \<open>
  \<^verbatim>\<open>HistogramDist(logps, scale, normed_bins, true_bins)\<close>: the instantiation of the
  class, then \<^verbatim>\<open>__init__\<close> without \<^verbatim>\<open>direct_init\<close>. An argument left at its
  default \<^verbatim>\<open>None\<close> is \<open>None\<close>; \<^verbatim>\<open>if true_bins:\<close> and
  \<^verbatim>\<open>elif normed_bins:\<close> hold for a non-empty list.
\<close>

definition truthy :: "real list option \<Rightarrow> bool" where
  "truthy v = (case v of None \<Rightarrow> False | Some xs \<Rightarrow> xs \<noteq> [])"

definition entries :: "real list option \<Rightarrow> real list" where
  "entries v = (case v of None \<Rightarrow> [] | Some xs \<Rightarrow> xs)"

definition HistogramDist_init ::
  "real list \<Rightarrow> Scale option \<Rightarrow> real list option \<Rightarrow> real list option \<Rightarrow>
   error + HistogramDist" where
  "HistogramDist_init logps scale normed_bins true_bins =
     ebind (instantiate HistogramDist_methods) (\<lambda>_.
       (let ps = map exp logps;
            sc = (case scale of None \<Rightarrow> Scale01 | Some s \<Rightarrow> s);
            bins =
              (if truthy true_bins
               then (normalize_points sc (entries true_bins), entries true_bins)
               else if truthy normed_bins
               then (entries normed_bins, denormalize_points sc (entries normed_bins))
               else (linspace 0 1 (length logps),
                     denormalize_points sc (linspace 0 1 (length logps))))
        in Inr \<lparr>h_logps = logps, h_ps = ps, h_cum_ps = cumsum ps, h_normed_bins = fst bins,
                h_size = length logps, h_scale = sc, h_true_bins = Some (snd bins)\<rparr>))"

text \<open>
  \<^verbatim>\<open>HistogramDist(direct_init=...)\<close>: the instantiation, then the branch of
  \<^verbatim>\<open>__init__\<close> that takes every attribute from the dictionary and sets
  \<^verbatim>\<open>true_bins\<close> to \<^verbatim>\<open>None\<close>.
\<close>

definition HistogramDist_direct_init ::
  "real list \<Rightarrow> real list \<Rightarrow> real list \<Rightarrow> real list \<Rightarrow> nat \<Rightarrow> Scale \<Rightarrow>
   error + HistogramDist" where
  "HistogramDist_direct_init logps ps cum_ps normed_bins sz sc =
     ebind (instantiate HistogramDist_methods) (\<lambda>_.
       Inr \<lparr>h_logps = logps, h_ps = ps, h_cum_ps = cum_ps, h_normed_bins = normed_bins,
            h_size = sz, h_scale = sc, h_true_bins = None\<rparr>)"

text \<open>\<^verbatim>\<open>HistogramDist.from_params\<close>: \<^verbatim>\<open>cls(nn.log_softmax(params))\<close>.\<close>

definition HistogramDist_from_params :: "real list \<Rightarrow> error + HistogramDist" where
  "HistogramDist_from_params params =
     ebind (log_softmax params) (\<lambda>logps. HistogramDist_init logps None None None)"

text \<open>
  \<^verbatim>\<open>HistogramDist.destructure\<close>: the tuple
  \<^verbatim>\<open>(HistogramDist, (logps, ps, cum_ps, normed_bins, size), *self.scale.destructure())\<close>.
\<close>

definition HistogramDist_destructure :: "HistogramDist \<Rightarrow> pyval list" where
  "HistogramDist_destructure h =
     [PyCls HistogramDistC,
      PyTup [PyArr (h_logps h), PyArr (h_ps h), PyArr (h_cum_ps h), PyArr (h_normed_bins h),
           PyInt (h_size h)],
      fst (Scale_destructure (h_scale h)), snd (Scale_destructure (h_scale h))]"

text \<open>
  \<^verbatim>\<open>HistogramDist.structure(cls, *params)\<close>. It first prints
  \<^verbatim>\<open>params[3]\<close>, then reads \<^verbatim>\<open>params[0]\<close> to \<^verbatim>\<open>params[6]\<close> in
  this order while building the \<^verbatim>\<open>direct_init\<close> dictionary, calling
  \<^verbatim>\<open>params[5](*params[6])\<close> for the scale, and then calls the class with the
  dictionary. The record is typed: a payload that is not an array (or not an integer for
  \<^verbatim>\<open>size\<close>) is reported as a \<^verbatim>\<open>TypeError\<close>.
\<close>

fun as_arr :: "pyval \<Rightarrow> error + real list" where
  "as_arr (PyArr xs) = Inr xs"
| "as_arr _ = Inl TypeError"

fun as_int :: "pyval \<Rightarrow> error + nat" where
  "as_int (PyInt n) = Inr n"
| "as_int _ = Inl TypeError"

definition HistogramDist_structure :: "pyval list \<Rightarrow> error + HistogramDist" where
  "HistogramDist_structure params =
     ebind (item params 3) (\<lambda>printed.
     ebind (item params 0) (\<lambda>p0.
     ebind (item params 1) (\<lambda>p1.
     ebind (item params 2) (\<lambda>p2.
     ebind (item params 3) (\<lambda>p3.
     ebind (item params 4) (\<lambda>p4.
     ebind (item params 5) (\<lambda>p5.
     ebind (item params 6) (\<lambda>p6.
     ebind (call_class p5 p6) (\<lambda>sc.
     ebind (as_arr p0) (\<lambda>logps.
     ebind (as_arr p1) (\<lambda>ps.
     ebind (as_arr p2) (\<lambda>cum_ps.
     ebind (as_arr p3) (\<lambda>normed_bins.
     ebind (as_int p4) (\<lambda>sz.
       HistogramDist_direct_init logps ps cum_ps normed_bins sz sc))))))))))))))"

text \<open>
  \<^verbatim>\<open>static_condition_loss\<close> and \<^verbatim>\<open>static_loss\<close>. The distribution is
  rebuilt first; then the condition class \<^verbatim>\<open>cond_class\<close>, a Python class object,
  rebuilds the condition with its classmethod \<^verbatim>\<open>structure\<close> and the loss of that
  condition on the distribution is taken and multiplied by \<open>100\<close>. What the class and its
  instance do, \<^verbatim>\<open>cond_class.structure(cond_param).loss(dist)\<close>, is the parameter
  \<open>condition_loss\<close>. \<^verbatim>\<open>static_loss\<close> adds the results up over
  \<^verbatim>\<open>zip(cond_classes, cond_params)\<close>, starting from \<open>0.0\<close>; the first exception
  ends the loop. (The function is compiled with \<^verbatim>\<open>jit\<close>; an exception raised
  while it is traced is raised by the call.)
\<close>

definition static_condition_loss ::
  "('k \<Rightarrow> 'p \<Rightarrow> HistogramDist \<Rightarrow> error + real) \<Rightarrow> real list \<Rightarrow> 'k \<Rightarrow> 'p \<Rightarrow> error + real" where
  "static_condition_loss condition_loss dist_params cond_class cond_param =
     ebind (HistogramDist_from_params dist_params) (\<lambda>h.
     ebind (condition_loss cond_class cond_param h) (\<lambda>l. Inr (l * 100)))"

fun static_loss_loop ::
  "('k \<Rightarrow> 'p \<Rightarrow> HistogramDist \<Rightarrow> error + real) \<Rightarrow> real list \<Rightarrow> real \<Rightarrow> ('k \<times> 'p) list \<Rightarrow>
   error + real" where
  "static_loss_loop condition_loss dist_params total_loss [] = Inr total_loss"
| "static_loss_loop condition_loss dist_params total_loss ((cond_class, cond_param) # rest) =
     ebind (static_condition_loss condition_loss dist_params cond_class cond_param) (\<lambda>l.
       static_loss_loop condition_loss dist_params (total_loss + l) rest)"

definition static_loss ::
  "('k \<Rightarrow> 'p \<Rightarrow> HistogramDist \<Rightarrow> error + real) \<Rightarrow> real list \<Rightarrow> 'k list \<Rightarrow> 'p list \<Rightarrow>
   error + real" where
  "static_loss condition_loss dist_params cond_classes cond_params =
     static_loss_loop condition_loss dist_params 0 (zip cond_classes cond_params)"

text \<open>
  The sum of a list of results, to state what \<^verbatim>\<open>static_loss\<close> adds up: it is the
  first exception if there is one.
\<close>

fun sum_results :: "(error + real) list \<Rightarrow> error + real" where
  "sum_results [] = Inr 0"
| "sum_results (Inl e # rs) = Inl e"
| "sum_results (Inr v # rs) = ebind (sum_results rs) (\<lambda>s. Inr (v + s))"

section \<open>Conditions (\<^verbatim>\<open>distributions/conditions.py\<close>)\<close>

text \<open>
  The three condition classes of this file. None of them defines
  \<^verbatim>\<open>structure\<close>, and their base class \<^verbatim>\<open>Condition\<close> of the same file
  declares only \<^verbatim>\<open>loss\<close>: the attribute lookup \<^verbatim>\<open>cond_class.structure\<close>
  raises \<^verbatim>\<open>AttributeError\<close>, whatever the parameters and the distribution are.
\<close>

datatype cond_class = PercentileConditionC | HistogramConditionC | IntervalConditionC


text \<open>
  An argument with a default value is an \<open>option\<close>, \<open>None\<close> when the caller leaves it
  out. The percentile and the bounds are floats that may be infinite or NaN.
\<close>

record PercentileCondition =
  pc_percentile :: efloat
  pc_value :: efloat
  pc_weight :: real

definition PercentileCondition_init ::
  "efloat \<Rightarrow> efloat \<Rightarrow> real option \<Rightarrow> error + PercentileCondition" where
  "PercentileCondition_init percentile val weight =
     (if \<not> (efloat_le (Fin 0) percentile \<and> efloat_le percentile (Fin 1)) then Inl ValueError
      else Inr \<lparr>pc_percentile = percentile, pc_value = val,
                pc_weight = (case weight of None \<Rightarrow> 1 | Some w \<Rightarrow> w)\<rparr>)"

text \<open>
  \<^verbatim>\<open>IntervalCondition.loss\<close> compares its bounds with \<^verbatim>\<open>is not\<close>, which is
  object identity, not equality of values. A bound is therefore a float object: a value
  together with the identity of the object that holds it. The default bounds
  \<^verbatim>\<open>float("-inf")\<close> and \<^verbatim>\<open>float("inf")\<close> of the constructor are two
  objects made once, when the class is defined.
\<close>

record float_obj =
  obj_id :: nat
  obj_val :: efloat

definition py_is :: "float_obj \<Rightarrow> float_obj \<Rightarrow> bool" where
  "py_is a b = (obj_id a = obj_id b)"

definition default_min :: float_obj where
  "default_min = \<lparr>obj_id = 0, obj_val = NegInf\<rparr>"

definition default_max :: float_obj where
  "default_max = \<lparr>obj_id = 1, obj_val = PosInf\<rparr>"

record IntervalCondition =
  ic_p :: real
  ic_min :: float_obj
  ic_max :: float_obj
  ic_weight :: real

definition IntervalCondition_init ::
  "real \<Rightarrow> float_obj option \<Rightarrow> float_obj option \<Rightarrow> real option \<Rightarrow> error + IntervalCondition" where
  "IntervalCondition_init p lo hi weight =
     (let mn = (case lo of None \<Rightarrow> default_min | Some m \<Rightarrow> m);
          mx = (case hi of None \<Rightarrow> default_max | Some m \<Rightarrow> m)
      in if efloat_le (obj_val mx) (obj_val mn) then Inl ValueError
         else Inr \<lparr>ic_p = p, ic_min = mn, ic_max = mx,
                   ic_weight = (case weight of None \<Rightarrow> 1 | Some w \<Rightarrow> w)\<rparr>)"

text \<open>
  \<^verbatim>\<open>IntervalCondition.loss\<close>. A distribution enters it only through its method
  \<^verbatim>\<open>cdf\<close>, the parameter \<open>cdf\<close>. Each evaluation of \<^verbatim>\<open>float("-inf")\<close> or
  \<^verbatim>\<open>float("inf")\<close> in the body makes a new float object; \<open>fresh\<close> is the
  identity it gets, one that no object alive at that moment has (the first of the two
  temporaries is dead when the second is made, so it may pass its identity on).
\<close>

definition IntervalCondition_loss ::
  "nat \<Rightarrow> IntervalCondition \<Rightarrow> (efloat \<Rightarrow> error + efloat) \<Rightarrow> error + efloat" where
  "IntervalCondition_loss fresh c cdf =
     ebind (if \<not> py_is (ic_min c) \<lparr>obj_id = fresh, obj_val = NegInf\<rparr>
            then cdf (obj_val (ic_min c)) else Inr (Fin 0)) (\<lambda>cdf_at_min.
     ebind (if \<not> py_is (ic_max c) \<lparr>obj_id = fresh, obj_val = PosInf\<rparr>
            then cdf (obj_val (ic_max c)) else Inr (Fin 1)) (\<lambda>cdf_at_max.
       (let actual_p = efloat_sub cdf_at_max cdf_at_min;
            diff = efloat_sub actual_p (Fin (ic_p c))
        in Inr (efloat_mul (Fin (ic_weight c)) (efloat_mul diff diff)))))"

text \<open>
  The loss of an interval condition in the words of the spec, for comparison: an open
  bound stands for the cdf value \<open>0\<close> or \<open>1\<close> and the cdf is not evaluated there.
\<close>

definition IntervalCondition_loss_spec ::
  "IntervalCondition \<Rightarrow> (efloat \<Rightarrow> error + efloat) \<Rightarrow> error + efloat" where
  "IntervalCondition_loss_spec c cdf =
     ebind (if obj_val (ic_min c) = NegInf then Inr (Fin 0) else cdf (obj_val (ic_min c)))
       (\<lambda>cdf_at_min.
     ebind (if obj_val (ic_max c) = PosInf then Inr (Fin 1) else cdf (obj_val (ic_max c)))
       (\<lambda>cdf_at_max.
       (let diff = efloat_sub (efloat_sub cdf_at_max cdf_at_min) (Fin (ic_p c))
        in Inr (efloat_mul (Fin (ic_weight c)) (efloat_mul diff diff)))))"

section \<open>Location-scale distributions (\<^verbatim>\<open>distributions/location_scale_family.py\<close>)\<close>

text \<open>
  \<^verbatim>\<open>LSDistribution\<close> defines all five abstract methods of its base class, so the
  class and its subclasses can be instantiated. Location and scale are floats that may be
  infinite or NaN.
\<close>

definition LSDistribution_methods :: "abstract_method list" where
  "LSDistribution_methods = [Mul, Rv, Cdf, Ppf, Sample]"

type_synonym metadata = "(string \<times> string) list"

record LSDistribution =
  ls_loc :: efloat
  ls_scale :: efloat
  ls_metadata :: "metadata option"

text \<open>
  \<^verbatim>\<open>LSDistribution.__init__\<close>: the scale is
  \<^verbatim>\<open>np.max([scale, 0.0000001])\<close>; location and metadata are stored as given.
\<close>

definition LSDistribution_init :: "efloat \<Rightarrow> efloat \<Rightarrow> metadata option \<Rightarrow> LSDistribution" where
  "LSDistribution_init l s m =
     \<lparr>ls_loc = l, ls_scale = efloat_max s (Fin (1 / 10000000)), ls_metadata = m\<rparr>"

text \<open>
  \<^verbatim>\<open>LSDistribution.cdf\<close>: the logistic cdf \<^verbatim>\<open>scipy.stats.logistic.cdf\<close>, which
  is \<^verbatim>\<open>expit\<close>, at \<open>(x - loc) / scale\<close>.
\<close>

definition expit :: "real \<Rightarrow> real" where
  "expit x = 1 / (1 + exp (- x))"

fun logistic_cdf :: "efloat \<Rightarrow> efloat" where
  "logistic_cdf FNaN = FNaN"
| "logistic_cdf NegInf = Fin 0"
| "logistic_cdf (Fin y) = Fin (expit y)"
| "logistic_cdf PosInf = Fin 1"

definition LSDistribution_cdf :: "LSDistribution \<Rightarrow> efloat \<Rightarrow> efloat" where
  "LSDistribution_cdf d x =
     (let y = efloat_div (efloat_sub x (ls_loc d)) (ls_scale d) in logistic_cdf y)"

text \<open>
  The method \<^verbatim>\<open>dist.cdf\<close> of a location-scale distribution as a loss calls it;
  it does not raise.
\<close>

definition cdf_of :: "LSDistribution \<Rightarrow> efloat \<Rightarrow> error + efloat" where
  "cdf_of d x = Inr (LSDistribution_cdf d x)"

text \<open>
  \<^verbatim>\<open>LSDistribution.normalize\<close> and \<^verbatim>\<open>LSDistribution.denormalize\<close>: both build
  a scale from the two bounds and return a new instance of the same class through the
  constructor, which clamps the scale again.
\<close>

definition LSDistribution_normalize :: "LSDistribution \<Rightarrow> real \<Rightarrow> real \<Rightarrow> error + LSDistribution" where
  "LSDistribution_normalize d scale_min scale_max =
     ebind (Scale_init scale_min scale_max) (\<lambda>sc.
       (let normalized_loc = normalize_point_ext sc (ls_loc d);
            normalized_scale = efloat_div (ls_scale d) (Fin (scale_range sc))
        in Inr (LSDistribution_init normalized_loc normalized_scale (ls_metadata d))))"

definition LSDistribution_denormalize :: "LSDistribution \<Rightarrow> real \<Rightarrow> real \<Rightarrow> error + LSDistribution" where
  "LSDistribution_denormalize d scale_min scale_max =
     ebind (Scale_init scale_min scale_max) (\<lambda>sc.
       (let denormalized_loc = denormalize_point_ext sc (ls_loc d);
            denormalized_scale = efloat_mul (ls_scale d) (Fin (scale_range sc))
        in Inr (LSDistribution_init denormalized_loc denormalized_scale (ls_metadata d))))"

section \<open>Mean conditions (\<^verbatim>\<open>conditions/mean.py\<close>)\<close>

text \<open>
  \<^verbatim>\<open>MeanCondition.__init__\<close> stores the mean and hands the weight to the
  constructor of the base class \<^verbatim>\<open>condition.Condition\<close> (absent; by the spec every
  condition carries its weight), default \<open>1.0\<close>.
\<close>

record MeanCondition =
  mc_mean :: real
  mc_weight :: real

definition MeanCondition_init :: "real \<Rightarrow> real option \<Rightarrow> MeanCondition" where
  "MeanCondition_init m weight =
     \<lparr>mc_mean = m, mc_weight = (case weight of None \<Rightarrow> 1 | Some w \<Rightarrow> w)\<rparr>"

definition MeanCondition_normalize :: "MeanCondition \<Rightarrow> real \<Rightarrow> real \<Rightarrow> error + MeanCondition" where
  "MeanCondition_normalize c scale_min scale_max =
     ebind (Scale_init scale_min scale_max) (\<lambda>sc.
       (let normalized_mean = normalize_point sc (mc_mean c)
        in Inr (MeanCondition_init normalized_mean (Some (mc_weight c)))))"

definition MeanCondition_denormalize :: "MeanCondition \<Rightarrow> real \<Rightarrow> real \<Rightarrow> error + MeanCondition" where
  "MeanCondition_denormalize c scale_min scale_max =
     ebind (Scale_init scale_min scale_max) (\<lambda>sc.
       (let denormalized_mean = denormalize_point sc (mc_mean c)
        in Inr (MeanCondition_init denormalized_mean (Some (mc_weight c)))))"

section \<open>Truncated logistic mixtures (\<^verbatim>\<open>distributions/truncated_logistic_mixture.py\<close>)\<close>

text \<open>
  Modelled from the spec: the class \<^verbatim>\<open>Logistic\<close> that this file imports from the
  module \<^verbatim>\<open>logistic\<close> of the package, which is not among the source files. By the
  spec it is the location-scale member with a location and a scale, whose scale is
  clamped to a small positive floor and is never exactly \<open>0\<close>; the floor is taken to be
  the \<open>0.0000001\<close> of the class of the same name in \<^verbatim>\<open>location_scale_family.py\<close>.
  Its cdf is the logistic cdf at \<open>(x - loc) / scale\<close>.
\<close>

record Logistic =
  lg_loc :: real
  lg_scale :: real

definition Logistic_init :: "real \<Rightarrow> real \<Rightarrow> Logistic" where
  "Logistic_init l s = \<lparr>lg_loc = l, lg_scale = max s (1 / 10000000)\<rparr>"

definition Logistic_cdf :: "Logistic \<Rightarrow> real \<Rightarrow> real" where
  "Logistic_cdf c x = expit ((x - lg_loc c) / lg_scale c)"

text \<open>
  The four dataclass fields of \<^verbatim>\<open>TruncatedLogisticMixture\<close>. Its base classes
  \<^verbatim>\<open>Mixture\<close> and \<^verbatim>\<open>Optimizable\<close> are not among the source files.
  Modelled from the spec: the truncated mixture is one of the distributions that are
  built and evaluated, so the base classes are taken to supply the abstract methods that
  the class body does not define.
\<close>

record TruncatedLogisticMixture =
  tlm_components :: "Logistic list"
  tlm_probs :: "real list"
  tlm_floor :: real
  tlm_ceiling :: real

definition lookup :: "('k \<rightharpoonup> 'v) \<Rightarrow> 'k \<Rightarrow> error + 'v" where
  "lookup m k = (case m k of None \<Rightarrow> Inl KeyError | Some v \<Rightarrow> Inr v)"

text \<open>\<^verbatim>\<open>opt_params.reshape((-1, 3))\<close>: rows of three; a length not divisible by 3 raises.\<close>

fun reshape3 :: "real list \<Rightarrow> error + (real \<times> real \<times> real) list" where
  "reshape3 [] = Inr []"
| "reshape3 (a # b # c # rest) = ebind (reshape3 rest) (\<lambda>rows. Inr ((a, b, c) # rows))"
| "reshape3 _ = Inl ValueError"

text \<open>
  \<^verbatim>\<open>TruncatedLogisticMixture.from_params\<close>; \<open>fexp\<close> is the exponential that
  \<^verbatim>\<open>nn.softmax\<close> uses.
\<close>

definition TruncatedLogisticMixture_from_params ::
  "(real \<Rightarrow> real) \<Rightarrow> (string \<rightharpoonup> real) \<Rightarrow> real list \<Rightarrow> error + TruncatedLogisticMixture" where
  "TruncatedLogisticMixture_from_params fexp fixed_params opt_params =
     ebind (lookup fixed_params ''floor'') (\<lambda>floor'.
     ebind (lookup fixed_params ''ceiling'') (\<lambda>ceiling'.
       (let loc_floor = floor' + (ceiling' - floor') * (- 2);
            loc_ceiling = floor' + (ceiling' - floor') * 3
        in ebind (reshape3 opt_params) (\<lambda>structured_params.
           (let locs = map (\<lambda>(a, b, c). loc_floor + expit a * (loc_ceiling - loc_floor))
                         structured_params;
                scales = map (\<lambda>(a, b, c). \<bar>b\<bar>) structured_params
            in ebind (softmax fexp (map (\<lambda>(a, b, c). c) structured_params)) (\<lambda>probs.
               (let component_dists = map (\<lambda>(l, s). Logistic_init l s) (zip locs scales)
                in Inr \<lparr>tlm_components = component_dists, tlm_probs = probs,
                         tlm_floor = floor', tlm_ceiling = ceiling'\<rparr>)))))))"

text \<open>
  \<^verbatim>\<open>__post_init__\<close> computes \<^verbatim>\<open>p_inside\<close> as
  \<open>1 - (p_below + p_above)\<close> from \<^verbatim>\<open>super().cdf\<close>, the cdf of the base class
  \<^verbatim>\<open>Mixture\<close> on the mixture itself, at the floor and at the ceiling; and
  \<^verbatim>\<open>cdf\<close> divides \<^verbatim>\<open>self.base_dist.cdf(x)\<close>, the cdf of the
  \<^verbatim>\<open>LogisticMixture\<close> of the same components and probabilities, by it. The two
  cdfs belong to absent classes and are the parameters \<open>super_cdf\<close> and \<open>base_cdf\<close>.
\<close>

definition TruncatedLogisticMixture_p_inside ::
  "(TruncatedLogisticMixture \<Rightarrow> real \<Rightarrow> real) \<Rightarrow> TruncatedLogisticMixture \<Rightarrow> real" where
  "TruncatedLogisticMixture_p_inside super_cdf t =
     (let p_below = super_cdf t (tlm_floor t);
          p_above = 1 - super_cdf t (tlm_ceiling t)
      in 1 - (p_below + p_above))"

definition TruncatedLogisticMixture_cdf ::
  "(TruncatedLogisticMixture \<Rightarrow> real \<Rightarrow> real) \<Rightarrow> (TruncatedLogisticMixture \<Rightarrow> real \<Rightarrow> real) \<Rightarrow>
   TruncatedLogisticMixture \<Rightarrow> real \<Rightarrow> real" where
  "TruncatedLogisticMixture_cdf super_cdf base_cdf t x =
     (let cdf_x = base_cdf t x / TruncatedLogisticMixture_p_inside super_cdf t
      in if x < tlm_floor t then 0 else if x > tlm_ceiling t then 1 else cdf_x)"

text \<open>
  Modelled from the spec: the cdf of a mixture, for both absent classes. By the spec a
  mixture is a list of location-scale components with mixing weights that sum to \<open>1\<close>;
  its cdf is the sum of the cdfs of the components, each times its weight.
\<close>

definition Mixture_cdf :: "TruncatedLogisticMixture \<Rightarrow> real \<Rightarrow> real" where
  "Mixture_cdf t x =
     sum_list (map (\<lambda>(c, p). Logistic_cdf c x * p) (zip (tlm_components t) (tlm_probs t)))"

section \<open>Fitting a single logistic with scipy (\<^verbatim>\<open>logistic.py\<close>)\<close>

record 'a LogisticParams =
  lp_loc :: 'a
  lp_scale :: 'a

record 'a LogisticMixtureParams =
  lmp_components :: "'a LogisticParams list"
  lmp_probs :: "'a list"


text \<open>
  \<^verbatim>\<open>LSDistribution.from_samples_scipy\<close>: the same library fit (of the class
  attribute \<^verbatim>\<open>odist\<close>), its estimates handed to the constructor.
\<close>

definition from_samples_scipy ::
  "(real list \<Rightarrow> error + real \<times> real) \<Rightarrow> real list \<Rightarrow> error + LSDistribution" where
  "from_samples_scipy fit samples =
     (case fit samples of
        Inl e \<Rightarrow> Inl e
      | Inr (l, s) \<Rightarrow> Inr (LSDistribution_init (Fin l) (Fin s) None))"

section \<open>Fitting a mixture by gradient ascent (\<^verbatim>\<open>logistic.py\<close>)\<close>

text \<open>
  \<^verbatim>\<open>fit_mixture\<close> tests its arrays with \<^verbatim>\<open>np.isnan\<close>, so the numbers of
  this part are floats that may be NaN; arithmetic on them propagates NaN. A mixture is
  an array of rows \<open>(location, scale, weight)\<close>.
\<close>

datatype nfloat = NaN | Num real

fun isnan :: "nfloat \<Rightarrow> bool" where
  "isnan NaN = True"
| "isnan (Num _) = False"

fun nadd :: "nfloat \<Rightarrow> nfloat \<Rightarrow> nfloat" where
  "nadd (Num a) (Num b) = Num (a + b)"
| "nadd _ _ = NaN"

fun nmul :: "nfloat \<Rightarrow> nfloat \<Rightarrow> nfloat" where
  "nmul (Num a) (Num b) = Num (a * b)"
| "nmul _ _ = NaN"

fun nexp :: "nfloat \<Rightarrow> nfloat" where
  "nexp (Num a) = Num (exp a)"
| "nexp NaN = NaN"

fun num_of :: "nfloat \<Rightarrow> real" where
  "num_of (Num a) = a"
| "num_of NaN = 0"

type_synonym components = "(nfloat \<times> nfloat \<times> nfloat) list"

text \<open>\<^verbatim>\<open>np.any(np.isnan(a))\<close> for an array of rows.\<close>

definition any_isnan :: "components \<Rightarrow> bool" where
  "any_isnan a = list_ex (\<lambda>(x, y, z). isnan x \<or> isnan y \<or> isnan z) a"

text \<open>\<^verbatim>\<open>nn.log_softmax\<close> on such floats: one NaN entry makes every entry NaN.\<close>

definition nlog_softmax :: "nfloat list \<Rightarrow> error + nfloat list" where
  "nlog_softmax xs =
     (if list_ex isnan xs then Inr (map (\<lambda>_. NaN) xs)
      else ebind (log_softmax (map num_of xs)) (\<lambda>ys. Inr (map Num ys)))"

text \<open>
  \<^verbatim>\<open>initialize_components\<close>: \<^verbatim>\<open>onp.random.rand(num_components, 3) * 0.1 + 1.\<close>
  with the third column overwritten by \<^verbatim>\<open>-num_components\<close>. The random matrix is the
  parameter \<open>rand\<close>, read by row and column.
\<close>

definition initialize_components :: "(nat \<Rightarrow> nat \<Rightarrow> real) \<Rightarrow> nat \<Rightarrow> components" where
  "initialize_components rand num_components =
     map (\<lambda>i. (Num (rand i 0 * (1 / 10) + 1), Num (rand i 1 * (1 / 10) + 1),
                Num (- real num_components)))
       [0..<num_components]"

definition structure_mixture_params :: "components \<Rightarrow> error + nfloat LogisticMixtureParams" where
  "structure_mixture_params comps =
     (let unnormalized_weights = map (\<lambda>(l, s, w). w) comps
      in ebind (nlog_softmax unnormalized_weights) (\<lambda>lsm.
         (let probs = map nexp lsm;
              component_params = map (\<lambda>(l, s, w). \<lparr>lp_loc = l, lp_scale = s\<rparr>) comps
          in Inr \<lparr>lmp_components = component_params, lmp_probs = probs\<rparr>)))"

text \<open>
  The update \<^verbatim>\<open>components + step_size * grads\<close> with \<^verbatim>\<open>step_size = 0.01\<close>,
  entry by entry (the gradient has the shape of the components).
\<close>

definition add_scaled :: "components \<Rightarrow> components \<Rightarrow> components" where
  "add_scaled comps grads =
     map (\<lambda>((l, s, w), (gl, gs, gw)).
            (nadd l (nmul (Num (1 / 100)) gl), nadd s (nmul (Num (1 / 100)) gs),
             nadd w (nmul (Num (1 / 100)) gw)))
       (zip comps grads)"

text \<open>
  The loop of \<^verbatim>\<open>fit_mixture\<close>, \<^verbatim>\<open>for n in range(1000)\<close>, by the number of
  iterations left. The compiled gradient \<^verbatim>\<open>grad_mixture_logpdf\<close> and the library
  function \<^verbatim>\<open>clip_grads\<close> are the parameters \<open>grad\<close> and \<open>clip\<close>. On NaN in the
  clipped gradients or in the components the loop prints both and is left with
  \<^verbatim>\<open>break\<close>; the printing of the score every hundredth iteration has no effect on the
  result. After the loop the components are structured and returned.
\<close>

fun fit_loop ::
  "('d \<Rightarrow> components \<Rightarrow> components) \<Rightarrow> (components \<Rightarrow> real \<Rightarrow> components) \<Rightarrow> 'd \<Rightarrow>
   nat \<Rightarrow> components \<Rightarrow> components" where
  "fit_loop grad clip data 0 comps = comps"
| "fit_loop grad clip data (Suc k) comps =
     (let grads = clip (grad data comps) 1
      in if any_isnan grads \<or> any_isnan comps then comps
         else fit_loop grad clip data k (add_scaled comps grads))"

definition fit_mixture ::
  "(nat \<Rightarrow> nat \<Rightarrow> real) \<Rightarrow> ('d \<Rightarrow> components \<Rightarrow> components) \<Rightarrow>
   (components \<Rightarrow> real \<Rightarrow> components) \<Rightarrow> 'd \<Rightarrow> nat \<Rightarrow> error + nfloat LogisticMixtureParams" where
  "fit_mixture rand grad clip data num_components =
     structure_mixture_params
       (fit_loop grad clip data 1000 (initialize_components rand num_components))"

text \<open>
  One iteration seen from outside: whether it finds NaN, and the components it passes on
  if it does not.
\<close>

definition nan_found ::
  "('d \<Rightarrow> components \<Rightarrow> components) \<Rightarrow> (components \<Rightarrow> real \<Rightarrow> components) \<Rightarrow> 'd \<Rightarrow>
   components \<Rightarrow> bool" where
  "nan_found grad clip data comps = (any_isnan (clip (grad data comps) 1) \<or> any_isnan comps)"

definition fit_step ::
  "('d \<Rightarrow> components \<Rightarrow> components) \<Rightarrow> (components \<Rightarrow> real \<Rightarrow> components) \<Rightarrow> 'd \<Rightarrow>
   components \<Rightarrow> components" where
  "fit_step grad clip data comps = add_scaled comps (clip (grad data comps) 1)"

section \<open>Example inputs\<close>

text \<open>The fixed parameters \<^verbatim>\<open>{"floor": 0, "ceiling": 1}\<close>.\<close>

definition floor_ceiling_01 :: "string \<rightharpoonup> real" where
  "floor_ceiling_01 = [''floor'' \<mapsto> 0, ''ceiling'' \<mapsto> 1]"

text \<open>
  The truncated mixture that \<^verbatim>\<open>from_params\<close> builds from these and the raw
  parameters \<^verbatim>\<open>[0., 1., 0.]\<close>: one logistic component with location \<open>1/2\<close> and
  scale \<open>1\<close>, truncated to \<open>[0, 1]\<close>.
\<close>

definition one_logistic_01 :: TruncatedLogisticMixture where
  "one_logistic_01 =
     \<lparr>tlm_components = [\<lparr>lg_loc = 1 / 2, lg_scale = 1\<rparr>], tlm_probs = [1],
      tlm_floor = 0, tlm_ceiling = 1\<rparr>"


section \<open>Properties\<close>

subsection \<open>Helper facts\<close>

lemma ebind_Inr [simp]: "ebind (Inr v) f = f v"
  by (simp add: ebind_def)

lemma ebind_Inl [simp]: "ebind (Inl e) f = Inl e"
  by (simp add: ebind_def)


lemma efloat_max_Fin: "efloat_max (Fin a) (Fin b) = Fin (max a b)"
  by (simp add: efloat_max_def max_def)

lemma efloat_lt_iff_not_ge:
  "a \<noteq> FNaN \<Longrightarrow> b \<noteq> FNaN \<Longrightarrow> efloat_lt a b = (\<not> efloat_le b a)"
  by (cases a; cases b) (auto simp add: efloat_lt_def)

lemma Scale_init_ok: "lo < hi \<Longrightarrow> Scale_init lo hi = Inr \<lparr>low = lo, high = hi\<rparr>"
  by (simp add: Scale_init_def)

lemma denormalize_normalize_point:
  "low s < high s \<Longrightarrow> denormalize_point s (normalize_point s x) = x"
  by (simp add: denormalize_point_def normalize_point_def scale_range_def)

lemma denormalize_normalize_point_ext:
  "low s < high s \<Longrightarrow> denormalize_point_ext s (normalize_point_ext s x) = x"
  by (cases x)
    (simp_all add: denormalize_point_ext_def normalize_point_ext_def scale_range_def
      efloat_sub_def signed_inf_def)

lemma expit_pos: "0 < expit x"
  by (simp add: expit_def add_pos_pos)

lemma expit_strict_mono: "x < y \<Longrightarrow> expit x < expit y"
  by (simp add: expit_def frac_less2 add_pos_pos)






lemma from_params_one_logistic:
  "TruncatedLogisticMixture_from_params exp floor_ceiling_01 [0, 1, 0] = Inr one_logistic_01"
  by (simp add: TruncatedLogisticMixture_from_params_def floor_ceiling_01_def lookup_def
      softmax_def expit_def Logistic_init_def Let_def one_logistic_01_def)

lemma Mixture_cdf_one_logistic: "Mixture_cdf one_logistic_01 x = expit (x - 1 / 2)"
  by (simp add: Mixture_cdf_def one_logistic_01_def Logistic_cdf_def)



lemma fit_loop_prefix:
  assumes "j \<le> k"
    and "\<forall>i<j. \<not> nan_found grad clip data ((fit_step grad clip data ^^ i) comps)"
    and "j < k \<longrightarrow> nan_found grad clip data ((fit_step grad clip data ^^ j) comps)"
  shows "fit_loop grad clip data k comps = (fit_step grad clip data ^^ j) comps"
  using assms
proof (induction k arbitrary: j comps)
  case 0
  then show ?case by simp
next
  case (Suc k)
  show ?case
  proof (cases j)
    case 0
    with Suc.prems(3) show ?thesis by (simp add: nan_found_def Let_def)
  next
    case (Suc j')
    from Suc.prems(2) Suc have first: "\<not> nan_found grad clip data comps" by force
    have rest: "\<forall>i<j'. \<not> nan_found grad clip data
        ((fit_step grad clip data ^^ i) (fit_step grad clip data comps))"
      using Suc.prems(2) Suc by (auto simp: funpow_swap1 dest: spec [of _ "Suc _"])
    have last: "j' < k \<longrightarrow> nan_found grad clip data
        ((fit_step grad clip data ^^ j') (fit_step grad clip data comps))"
      using Suc.prems(3) Suc by (simp add: funpow_swap1)
    have "fit_loop grad clip data k (fit_step grad clip data comps) =
        (fit_step grad clip data ^^ j') (fit_step grad clip data comps)"
      using Suc.prems(1) Suc rest last by (intro Suc.IH) simp_all
    moreover have "fit_loop grad clip data (Suc k) comps =
        fit_loop grad clip data k (fit_step grad clip data comps)"
      using first by (simp add: nan_found_def fit_step_def Let_def)
    ultimately show ?thesis
      using Suc by (simp only: funpow_Suc_right o_apply)
  qed
qed

lemma structure_mixture_params_returns:
  "comps \<noteq> [] \<Longrightarrow> \<exists>r. structure_mixture_params comps = Inr r"
  by (simp add: structure_mixture_params_def nlog_softmax_def log_softmax_def Let_def)

lemma initialize_one:
  "initialize_components (\<lambda>_ _. 0) (Suc 0) = [(Num 1, Num 1, Num (- 1))]"
  by (simp add: initialize_components_def)

lemma structure_one:
  "structure_mixture_params [(Num 1, Num 1, Num (- 1))] =
     Inr \<lparr>lmp_components = [\<lparr>lp_loc = Num 1, lp_scale = Num 1\<rparr>], lmp_probs = [Num 1]\<rparr>"
  by (simp add: structure_mixture_params_def nlog_softmax_def log_softmax_def Let_def)

subsection \<open>Classes that cannot be instantiated\<close>


lemma LSDistribution_concrete: "instantiate LSDistribution_methods = Inr ()"
  by (simp add: instantiate_def LSDistribution_methods_def Distribution_abstractmethods_def)





subsection \<open>The cumulative distribution function\<close>

text \<open>
  The cdf of a truncated mixture divides the cdf \<open>F\<close> of the untruncated mixture by
  \<open>F ceiling - F floor\<close> without first subtracting \<open>F floor\<close>.
\<close>

lemma TruncatedLogisticMixture_p_inside_eq:
  "TruncatedLogisticMixture_p_inside F t = F t (tlm_ceiling t) - F t (tlm_floor t)"
  by (simp add: TruncatedLogisticMixture_p_inside_def Let_def)

text \<open>
  Claim C1 fails on \<^verbatim>\<open>TruncatedLogisticMixture.cdf\<close>. Let \<open>F\<close> be the cdf of the
  untruncated mixture, used both for \<^verbatim>\<open>super().cdf\<close> and for
  \<^verbatim>\<open>self.base_dist.cdf\<close>, with \<open>0 < F floor < F ceiling\<close> (as it is for every
  mixture of logistic components with \<open>floor < ceiling\<close>). Then the cdf of the truncated
  mixture is \<open>F ceiling / (F ceiling - F floor)\<close> at the ceiling, which is greater than
  \<open>1\<close>, it is \<open>F floor / (F ceiling - F floor)\<close> at the floor, which is greater than \<open>0\<close>,
  and it is \<open>1\<close> at every point above the ceiling: the cdf leaves \<open>[0,1]\<close>, it decreases
  from the ceiling to the points above it, and it is not \<open>0\<close> at the low boundary.
\<close>

theorem TruncatedLogisticMixture_cdf_exceeds_one:
  assumes "tlm_floor t \<le> tlm_ceiling t"
    and "0 < F t (tlm_floor t)"
    and "F t (tlm_floor t) < F t (tlm_ceiling t)"
  shows "TruncatedLogisticMixture_cdf F F t (tlm_ceiling t) =
           F t (tlm_ceiling t) / (F t (tlm_ceiling t) - F t (tlm_floor t)) \<and>
         1 < TruncatedLogisticMixture_cdf F F t (tlm_ceiling t) \<and>
         TruncatedLogisticMixture_cdf F F t (tlm_floor t) =
           F t (tlm_floor t) / (F t (tlm_ceiling t) - F t (tlm_floor t)) \<and>
         0 < TruncatedLogisticMixture_cdf F F t (tlm_floor t) \<and>
         (\<forall>x. tlm_ceiling t < x \<longrightarrow> TruncatedLogisticMixture_cdf F F t x = 1)"
proof -
  let ?f = "F t (tlm_floor t)" and ?c = "F t (tlm_ceiling t)"
  have at_c: "TruncatedLogisticMixture_cdf F F t (tlm_ceiling t) = ?c / (?c - ?f)"
    using assms(1)
    by (simp add: TruncatedLogisticMixture_cdf_def TruncatedLogisticMixture_p_inside_eq Let_def)
  have at_f: "TruncatedLogisticMixture_cdf F F t (tlm_floor t) = ?f / (?c - ?f)"
    using assms(1)
    by (simp add: TruncatedLogisticMixture_cdf_def TruncatedLogisticMixture_p_inside_eq Let_def)
  have big: "1 < ?c / (?c - ?f)"
    using assms(2,3) by (simp add: less_divide_eq)
  have pos: "0 < ?f / (?c - ?f)"
    using assms(2,3) by simp
  have above: "TruncatedLogisticMixture_cdf F F t x = 1" if "tlm_ceiling t < x" for x
    using that assms(1) by (simp add: TruncatedLogisticMixture_cdf_def Let_def)
  show ?thesis
    using at_c at_f big pos above by simp
qed

text \<open>
  The theorem at the mixture that \<^verbatim>\<open>from_params\<close> builds from
  \<^verbatim>\<open>{"floor": 0, "ceiling": 1}\<close> and \<^verbatim>\<open>[0., 1., 0.]\<close>, with the mixture cdf
  of the spec: the cdf is greater than \<open>1\<close> at the ceiling \<open>1\<close> and is \<open>1\<close> at \<open>2\<close>.
\<close>

theorem TruncatedLogisticMixture_cdf_exceeds_one_witness:
  "TruncatedLogisticMixture_from_params exp floor_ceiling_01 [0, 1, 0] = Inr one_logistic_01 \<and>
   1 < TruncatedLogisticMixture_cdf Mixture_cdf Mixture_cdf one_logistic_01 1 \<and>
   TruncatedLogisticMixture_cdf Mixture_cdf Mixture_cdf one_logistic_01 2 = 1"
proof -
  have c: "tlm_ceiling one_logistic_01 = 1" and f: "tlm_floor one_logistic_01 = 0"
    by (simp_all add: one_logistic_01_def)
  have lt: "expit (0 - 1 / 2) < expit (1 - 1 / 2)"
    by (rule expit_strict_mono) simp
  have h1: "tlm_floor one_logistic_01 \<le> tlm_ceiling one_logistic_01"
    by (simp add: c f)
  have h2: "0 < Mixture_cdf one_logistic_01 (tlm_floor one_logistic_01)"
    by (simp add: f Mixture_cdf_one_logistic expit_pos)
  have h3: "Mixture_cdf one_logistic_01 (tlm_floor one_logistic_01) <
      Mixture_cdf one_logistic_01 (tlm_ceiling one_logistic_01)"
    using lt by (simp add: c f Mixture_cdf_one_logistic)
  show ?thesis
    using TruncatedLogisticMixture_cdf_exceeds_one [where t = one_logistic_01
        and F = Mixture_cdf] h1 h2 h3
    by (simp add: from_params_one_logistic c)
qed

subsection \<open>Structure and destructure\<close>

text \<open>
  Were there a histogram \<open>h\<close>, the tuple that \<^verbatim>\<open>destructure\<close> returns for it would
  not be what \<^verbatim>\<open>structure\<close> reads either: unpacked as the arguments, or passed
  as one argument, it ends in an \<^verbatim>\<open>IndexError\<close>.
\<close>

lemma HistogramDist_structure_destructure:
  "HistogramDist_structure (HistogramDist_destructure h) = Inl IndexError"
  "HistogramDist_structure [PyTup (HistogramDist_destructure h)] = Inl IndexError"
  by (simp_all add: HistogramDist_structure_def HistogramDist_destructure_def item_def)


subsection \<open>The total loss\<close>

text \<open>
  What \<^verbatim>\<open>static_loss\<close> adds up: for each pair of \<^verbatim>\<open>zip(cond_classes, cond_params)\<close>
  the loss of the rebuilt condition on the rebuilt distribution, times \<open>100\<close>; the first
  exception met is the result.
\<close>

lemma static_condition_loss_hundredfold:
  "static_condition_loss cl dp k p =
     ebind (HistogramDist_from_params dp) (\<lambda>h. ebind (cl k p h) (\<lambda>l. Inr (100 * l)))"
  by (simp add: static_condition_loss_def mult.commute)

lemma static_loss_loop_sum_results:
  "static_loss_loop cl dp acc zs =
     ebind (sum_results
              (map (\<lambda>(k, p). ebind (HistogramDist_from_params dp) (\<lambda>h.
                               ebind (cl k p h) (\<lambda>l. Inr (100 * l)))) zs))
       (\<lambda>s. Inr (acc + s))"
proof (induction zs arbitrary: acc)
  case Nil
  then show ?case by simp
next
  case (Cons z zs)
  let ?summand = "\<lambda>(k, p). ebind (HistogramDist_from_params dp) (\<lambda>h.
                 ebind (cl k p h) (\<lambda>l. Inr (100 * l)))"
  obtain k p where z: "z = (k, p)" by (cases z)
  show ?case
  proof (cases "?summand (k, p)")
    case (Inl e)
    then show ?thesis
      by (simp add: z static_condition_loss_hundredfold)
  next
    case (Inr l)
    then show ?thesis
      by (cases "sum_results (map ?summand zs)")
        (simp_all add: z static_condition_loss_hundredfold Cons.IH add.assoc)
  qed
qed

lemma static_loss_sum_results:
  "static_loss cl dist_params cond_classes cond_params =
     sum_results
       (map (\<lambda>(k, p). ebind (HistogramDist_from_params dist_params) (\<lambda>h.
                        ebind (cl k p h) (\<lambda>l. Inr (100 * l))))
          (zip cond_classes cond_params))"
  by (simp add: static_loss_def static_loss_loop_sum_results ebind_def split: sum.splits)

lemma static_loss_no_conditions: "static_loss cl dist_params [] cond_params = Inr 0"
  by (simp add: static_loss_def)


subsection \<open>The loss of an interval condition\<close>

text \<open>
  The test \<^verbatim>\<open>self.min is not float("-inf")\<close> compares the bound with a new object and
  is always true: the loss evaluates the cdf at both bounds, whatever they are.
\<close>

lemma IntervalCondition_loss_reads_both_bounds:
  assumes "fresh \<noteq> obj_id (ic_min c)" and "fresh \<noteq> obj_id (ic_max c)"
  shows "IntervalCondition_loss fresh c cdf =
           ebind (cdf (obj_val (ic_min c))) (\<lambda>cdf_at_min.
           ebind (cdf (obj_val (ic_max c))) (\<lambda>cdf_at_max.
             Inr (efloat_mul (Fin (ic_weight c))
                   (efloat_mul (efloat_sub (efloat_sub cdf_at_max cdf_at_min) (Fin (ic_p c)))
                               (efloat_sub (efloat_sub cdf_at_max cdf_at_min) (Fin (ic_p c)))))))"
  using assms by (auto simp add: IntervalCondition_loss_def py_is_def Let_def)

lemma LSDistribution_cdf_at_infinite_loc:
  "LSDistribution_cdf (LSDistribution_init NegInf (Fin 1) None) NegInf = FNaN"
  "LSDistribution_cdf (LSDistribution_init NegInf (Fin 1) None) (Fin 0) = Fin 1"
  by (simp_all add: LSDistribution_cdf_def LSDistribution_init_def efloat_max_def efloat_sub_def
      signed_inf_def)

text \<open>
  Claim C4 fails on the code. \<^verbatim>\<open>IntervalCondition(p=0.5, max=0.0)\<close> leaves the lower
  bound at its default \<open>-\<infinity>\<close>. On the distribution
  \<^verbatim>\<open>LSDistribution(float("-inf"), 1.0)\<close> the loss evaluates the cdf at \<open>-\<infinity>\<close>, which is
  NaN there, and returns NaN; with the constant \<open>0\<close> for the open bound, as the claim has
  it, the loss is \<open>(1 - 0 - 0.5)\<^sup>2 = 0.25\<close>.
\<close>

theorem IntervalCondition_loss_open_bound:
  "IntervalCondition_init (1 / 2) None (Some \<lparr>obj_id = 2, obj_val = Fin 0\<rparr>) None =
     Inr \<lparr>ic_p = 1 / 2, ic_min = default_min, ic_max = \<lparr>obj_id = 2, obj_val = Fin 0\<rparr>,
          ic_weight = 1\<rparr> \<and>
   IntervalCondition_loss 3
     \<lparr>ic_p = 1 / 2, ic_min = default_min, ic_max = \<lparr>obj_id = 2, obj_val = Fin 0\<rparr>, ic_weight = 1\<rparr>
     (cdf_of (LSDistribution_init NegInf (Fin 1) None)) = Inr FNaN \<and>
   IntervalCondition_loss_spec
     \<lparr>ic_p = 1 / 2, ic_min = default_min, ic_max = \<lparr>obj_id = 2, obj_val = Fin 0\<rparr>, ic_weight = 1\<rparr>
     (cdf_of (LSDistribution_init NegInf (Fin 1) None)) = Inr (Fin (1 / 4))"
  by (simp add: IntervalCondition_init_def IntervalCondition_loss_def
      IntervalCondition_loss_spec_def default_min_def py_is_def cdf_of_def
      LSDistribution_cdf_at_infinite_loc efloat_sub_def Let_def)

subsection \<open>Validation in the constructors of conditions\<close>

text \<open>
  Claim C5, as amended. \<^verbatim>\<open>PercentileCondition.__init__\<close> raises
  \<^verbatim>\<open>ValueError\<close>, and nothing else, exactly when \<open>0 \<le> percentile \<le> 1\<close> does not
  hold (so also for NaN), and a condition it returns has its percentile in \<open>[0,1]\<close>.
  \<^verbatim>\<open>IntervalCondition.__init__\<close> raises \<^verbatim>\<open>ValueError\<close>, and nothing else,
  exactly when the comparison \<open>max \<le> min\<close> holds, the defaults \<open>-\<infinity>\<close> and \<open>\<infinity>\<close> standing for
  a bound that is left out; a condition it returns holds the bounds as given, with
  \<open>max \<le> min\<close> false, and with \<open>min < max\<close> when neither bound is NaN.
\<close>

theorem condition_init_validates:
  "(PercentileCondition_init percentile val weight = Inl ValueError \<longleftrightarrow>
      \<not> (efloat_le (Fin 0) percentile \<and> efloat_le percentile (Fin 1))) \<and>
   (\<forall>e. PercentileCondition_init percentile val weight = Inl e \<longrightarrow> e = ValueError) \<and>
   (\<forall>c. PercentileCondition_init percentile val weight = Inr c \<longrightarrow>
      efloat_le (Fin 0) (pc_percentile c) \<and> efloat_le (pc_percentile c) (Fin 1) \<and>
      pc_percentile c = percentile \<and> pc_value c = val) \<and>
   (IntervalCondition_init p (Some lo) (Some hi) weight = Inl ValueError \<longleftrightarrow>
      efloat_le (obj_val hi) (obj_val lo)) \<and>
   (\<forall>e. IntervalCondition_init p (Some lo) (Some hi) weight = Inl e \<longrightarrow> e = ValueError) \<and>
   (\<forall>c. IntervalCondition_init p (Some lo) (Some hi) weight = Inr c \<longrightarrow>
      ic_min c = lo \<and> ic_max c = hi \<and> ic_p c = p \<and>
      \<not> efloat_le (obj_val (ic_max c)) (obj_val (ic_min c)) \<and>
      (obj_val lo \<noteq> FNaN \<and> obj_val hi \<noteq> FNaN \<longrightarrow>
         efloat_lt (obj_val (ic_min c)) (obj_val (ic_max c)))) \<and>
   (IntervalCondition_init p None (Some hi) weight = Inl ValueError \<longleftrightarrow>
      efloat_le (obj_val hi) NegInf) \<and>
   (IntervalCondition_init p (Some lo) None weight = Inl ValueError \<longleftrightarrow>
      efloat_le PosInf (obj_val lo)) \<and>
   (\<exists>c. IntervalCondition_init p None None weight = Inr c)"
  by (auto simp add: PercentileCondition_init_def IntervalCondition_init_def Let_def
      default_min_def default_max_def efloat_lt_iff_not_ge)

text \<open>
  The theorem at \<^verbatim>\<open>PercentileCondition(1.5, 0.0)\<close> and at
  \<^verbatim>\<open>IntervalCondition(0.5, 1.0, 1.0)\<close>, which raise, and at
  \<^verbatim>\<open>PercentileCondition(0.5, 0.0)\<close>, which is built.
\<close>

theorem condition_init_validates_witness:
  "PercentileCondition_init (Fin (3 / 2)) (Fin 0) None = Inl ValueError \<and>
   PercentileCondition_init FNaN (Fin 0) None = Inl ValueError \<and>
   (\<exists>c. PercentileCondition_init (Fin (1 / 2)) (Fin 0) None = Inr c) \<and>
   IntervalCondition_init (1 / 2) (Some \<lparr>obj_id = 2, obj_val = Fin 1\<rparr>)
     (Some \<lparr>obj_id = 3, obj_val = Fin 1\<rparr>) None = Inl ValueError"
  using condition_init_validates [where percentile = "Fin (3 / 2)" and val = "Fin 0"
      and weight = None and p = "1 / 2" and lo = "\<lparr>obj_id = 2, obj_val = Fin 1\<rparr>"
      and hi = "\<lparr>obj_id = 3, obj_val = Fin 1\<rparr>"]
  by (simp add: PercentileCondition_init_def)

text \<open>
  Claim C5 as stated fails. \<^verbatim>\<open>IntervalCondition(0.5, float("nan"), 1.0)\<close> is built,
  since \<open>1.0 \<le> NaN\<close> is false, and its bounds do not satisfy \<open>min < max\<close>.
\<close>

theorem IntervalCondition_init_accepts_nan:
  "IntervalCondition_init (1 / 2) (Some \<lparr>obj_id = 2, obj_val = FNaN\<rparr>)
      (Some \<lparr>obj_id = 3, obj_val = Fin 1\<rparr>) None =
     Inr \<lparr>ic_p = 1 / 2, ic_min = \<lparr>obj_id = 2, obj_val = FNaN\<rparr>,
          ic_max = \<lparr>obj_id = 3, obj_val = Fin 1\<rparr>, ic_weight = 1\<rparr> \<and>
   \<not> efloat_lt FNaN (Fin 1)"
  by (simp add: IntervalCondition_init_def efloat_lt_def)

subsection \<open>Parameters of a truncated logistic mixture\<close>




subsection \<open>Normalizing and denormalizing\<close>

text \<open>
  The scale of a location-scale distribution after normalizing and denormalizing with a
  range of width \<open>w\<close>: the constructor clamps it twice.
\<close>

lemma LSDistribution_round_trip_scale:
  assumes "0 < w" and "efloat_le (Fin (1 / 10000000)) s"
  shows "efloat_max (efloat_mul (efloat_max (efloat_div s (Fin w)) (Fin (1 / 10000000))) (Fin w))
           (Fin (1 / 10000000)) =
         (if efloat_le (Fin (w / 10000000)) s then s else Fin (w / 10000000))"
proof (cases s)
  case FNaN
  then show ?thesis using assms by simp
next
  case NegInf
  then show ?thesis using assms by simp
next
  case (Fin r)
  show ?thesis
  proof (cases "w / 10000000 \<le> r")
    case True
    then have "1 / 10000000 \<le> r / w"
      using assms(1) by (simp add: pos_le_divide_eq mult.commute)
    then show ?thesis
      using assms Fin True by (simp add: efloat_max_Fin max_def)
  next
    case False
    then have lt: "r / w < 1 / 10000000"
      using assms(1) by (simp add: pos_divide_less_eq mult.commute)
    have "1 / 10000000 \<le> w / 10000000"
      using assms Fin False by simp
    then show ?thesis
      using assms Fin False lt by (simp add: efloat_max_Fin max_def)
  qed
next
  case PosInf
  then show ?thesis using assms by (simp add: efloat_max_def signed_inf_def)
qed

text \<open>
  Claim C9, as amended. For bounds \<open>scale_min < scale_max\<close>, normalizing a mean condition
  returns a mean condition with the same weight, and denormalizing that one with the same
  bounds returns the original condition (in the exact arithmetic of this model; within
  floating tolerance in the program). Normalizing a location-scale distribution whose
  scale is at least \<open>0.0000001\<close>, as the constructor makes it, keeps its metadata, and
  denormalizing the result restores location and metadata. The scale is restored, and
  with it the distribution, when it is at least \<open>(scale_max - scale_min) \<cdot> 0.0000001\<close>;
  when it is smaller, the round trip returns the scale
  \<open>(scale_max - scale_min) \<cdot> 0.0000001\<close>, which is not the original one.
\<close>

theorem normalize_denormalize_round_trip:
  assumes "scale_min < scale_max"
    and "efloat_le (Fin (1 / 10000000)) (ls_scale d)"
  shows "\<exists>c' d' d''. MeanCondition_normalize c scale_min scale_max = Inr c' \<and>
           mc_weight c' = mc_weight c \<and>
           MeanCondition_denormalize c' scale_min scale_max = Inr c \<and>
           LSDistribution_normalize d scale_min scale_max = Inr d' \<and>
           ls_metadata d' = ls_metadata d \<and>
           LSDistribution_denormalize d' scale_min scale_max = Inr d'' \<and>
           ls_loc d'' = ls_loc d \<and> ls_metadata d'' = ls_metadata d \<and>
           (efloat_le (Fin ((scale_max - scale_min) / 10000000)) (ls_scale d) \<longrightarrow>
              ls_scale d'' = ls_scale d \<and> d'' = d) \<and>
           (\<not> efloat_le (Fin ((scale_max - scale_min) / 10000000)) (ls_scale d) \<longrightarrow>
              ls_scale d'' = Fin ((scale_max - scale_min) / 10000000) \<and>
              ls_scale d'' \<noteq> ls_scale d)"
proof -
  let ?sc = "\<lparr>low = scale_min, high = scale_max\<rparr>"
  have w: "0 < scale_max - scale_min" using assms(1) by simp
  have loc: "denormalize_point ?sc (normalize_point ?sc x) = x" for x
    using assms(1) by (simp add: denormalize_normalize_point)
  have loc_ext: "denormalize_point_ext ?sc (normalize_point_ext ?sc x) = x" for x
    using assms(1) by (simp add: denormalize_normalize_point_ext)
  note sc = LSDistribution_round_trip_scale [OF w assms(2)]
  have ne: "ls_scale d \<noteq> Fin ((scale_max - scale_min) / 10000000)"
    if "\<not> efloat_le (Fin ((scale_max - scale_min) / 10000000)) (ls_scale d)"
    using that by auto
  show ?thesis
    using assms(1) loc loc_ext sc ne ne [symmetric]
    by (simp add: MeanCondition_normalize_def MeanCondition_denormalize_def
        LSDistribution_normalize_def LSDistribution_denormalize_def Scale_init_ok
        MeanCondition_init_def LSDistribution_init_def scale_range_def Let_def)
qed

text \<open>
  The theorem at the bounds \<open>0\<close> and \<open>4\<close>, \<^verbatim>\<open>MeanCondition(1, 3)\<close> and
  \<^verbatim>\<open>LSDistribution(1, 2)\<close>.
\<close>

theorem normalize_denormalize_round_trip_witness:
  "MeanCondition_denormalize \<lparr>mc_mean = 1 / 4, mc_weight = 3\<rparr> 0 4 =
      Inr \<lparr>mc_mean = 1, mc_weight = 3\<rparr> \<and>
   LSDistribution_denormalize \<lparr>ls_loc = Fin (1 / 4), ls_scale = Fin (1 / 2), ls_metadata = None\<rparr>
       0 4 =
      Inr \<lparr>ls_loc = Fin 1, ls_scale = Fin 2, ls_metadata = None\<rparr>"
  using normalize_denormalize_round_trip [of 0 4
      "\<lparr>ls_loc = Fin 1, ls_scale = Fin 2, ls_metadata = None\<rparr>" "\<lparr>mc_mean = 1, mc_weight = 3\<rparr>"]
  by (simp add: MeanCondition_normalize_def LSDistribution_normalize_def Scale_init_def
      MeanCondition_init_def LSDistribution_init_def scale_range_def normalize_point_def
      normalize_point_ext_def efloat_sub_def efloat_max_Fin)

text \<open>
  Claim C9 as stated fails. The distribution \<^verbatim>\<open>LSDistribution(0, 0.0000001)\<close> has
  the scale \<open>0.0000001\<close>; normalized with the bounds \<open>0\<close> and \<open>10\<close> its scale
  \<open>0.00000001\<close> is clamped back to \<open>0.0000001\<close>, and denormalizing with the same bounds
  gives the scale \<open>0.000001\<close>, ten times the original.
\<close>

theorem LSDistribution_round_trip_clamped:
  "ls_scale (LSDistribution_init (Fin 0) (Fin (1 / 10000000)) None) = Fin (1 / 10000000) \<and>
   LSDistribution_normalize (LSDistribution_init (Fin 0) (Fin (1 / 10000000)) None) 0 10 =
     Inr \<lparr>ls_loc = Fin 0, ls_scale = Fin (1 / 10000000), ls_metadata = None\<rparr> \<and>
   LSDistribution_denormalize \<lparr>ls_loc = Fin 0, ls_scale = Fin (1 / 10000000), ls_metadata = None\<rparr>
       0 10 =
     Inr \<lparr>ls_loc = Fin 0, ls_scale = Fin (1 / 1000000), ls_metadata = None\<rparr> \<and>
   ebind (LSDistribution_normalize (LSDistribution_init (Fin 0) (Fin (1 / 10000000)) None) 0 10)
     (\<lambda>n. LSDistribution_denormalize n 0 10) \<noteq>
     Inr (LSDistribution_init (Fin 0) (Fin (1 / 10000000)) None)"
  by (simp add: LSDistribution_normalize_def LSDistribution_denormalize_def Scale_init_def
      LSDistribution_init_def scale_range_def normalize_point_ext_def denormalize_point_ext_def
      efloat_sub_def efloat_max_Fin)

subsection \<open>NaN during a fit\<close>

text \<open>
  Claim C7, as amended. If NaN is first found (in the clipped gradients or in the
  components) at iteration \<open>j\<close> of \<^verbatim>\<open>fit_mixture\<close>, the loop is left and the call
  returns what \<^verbatim>\<open>structure_mixture_params\<close> makes of the components held at that
  iteration, that is after \<open>j\<close> updates; with at least one component this is a result,
  not an exception. \<^verbatim>\<open>from_samples_scipy\<close> raises exactly when the library's fit
  raises, and otherwise returns the distribution of the estimates, whatever they are, with
  the scale clamped by the constructor.
\<close>

theorem fit_mixture_returns_on_nan:
  assumes "j < 1000"
    and "\<forall>i<j. \<not> nan_found grad clip data
           ((fit_step grad clip data ^^ i) (initialize_components rand n))"
    and "nan_found grad clip data
           ((fit_step grad clip data ^^ j) (initialize_components rand n))"
  shows "fit_mixture rand grad clip data n =
           structure_mixture_params
             ((fit_step grad clip data ^^ j) (initialize_components rand n)) \<and>
         ((fit_step grad clip data ^^ j) (initialize_components rand n) \<noteq> [] \<longrightarrow>
            (\<exists>r. fit_mixture rand grad clip data n = Inr r)) \<and>
         from_samples_scipy fit samples =
           (case fit samples of Inl e \<Rightarrow> Inl e
            | Inr (l, s) \<Rightarrow> Inr \<lparr>ls_loc = Fin l, ls_scale = Fin (max s (1 / 10000000)),
                               ls_metadata = None\<rparr>)"
proof -
  have "fit_loop grad clip data 1000 (initialize_components rand n) =
      (fit_step grad clip data ^^ j) (initialize_components rand n)"
    using assms by (intro fit_loop_prefix) simp_all
  then show ?thesis
    by (auto simp: fit_mixture_def from_samples_scipy_def LSDistribution_init_def
        efloat_max_Fin dest: structure_mixture_params_returns split: sum.splits)
qed

theorem fit_mixture_returns_on_nan_witness:
  "fit_mixture (\<lambda>_ _. 0) (\<lambda>(_ :: real list) _. [(NaN, NaN, NaN)]) (\<lambda>g _. g) [] 1 =
     Inr \<lparr>lmp_components = [\<lparr>lp_loc = Num 1, lp_scale = Num 1\<rparr>], lmp_probs = [Num 1]\<rparr> \<and>
   from_samples_scipy (\<lambda>_. Inr (3, 0)) [3, 3, 3] =
     Inr \<lparr>ls_loc = Fin 3, ls_scale = Fin (1 / 10000000), ls_metadata = None\<rparr>"
  using fit_mixture_returns_on_nan [of 0 "\<lambda>(_ :: real list) _. [(NaN, NaN, NaN)]" "\<lambda>g _. g" "[]"
      "\<lambda>_ _. 0" 1 "\<lambda>_. Inr (3, 0)" "[3, 3, 3]"]
  by (simp add: nan_found_def any_isnan_def initialize_one structure_one)

text \<open>
  Claim C7 as stated fails. With one component and a gradient that is NaN in the first
  iteration, \<^verbatim>\<open>fit_mixture\<close> returns the parameters of the initial components.
\<close>

theorem fit_mixture_nan_not_an_error:
  "any_isnan ((\<lambda>g (_ :: real). g)
      ((\<lambda>(_ :: real list) _. [(NaN, NaN, NaN)]) [] (initialize_components (\<lambda>_ _. 0) 1)) 1) \<and>
   fit_mixture (\<lambda>_ _. 0) (\<lambda>(_ :: real list) _. [(NaN, NaN, NaN)]) (\<lambda>g _. g) [] 1 =
     Inr \<lparr>lmp_components = [\<lparr>lp_loc = Num 1, lp_scale = Num 1\<rparr>], lmp_probs = [Num 1]\<rparr>"
  by (simp add: fit_mixture_def any_isnan_def initialize_one structure_one numeral_eq_Suc)


subsection \<open>Clamps\<close>

text \<open>
  Claim C8, as amended. For every location and every scale argument that is not NaN
  (zero, negative and infinite ones included), the distribution built by
  \<^verbatim>\<open>LSDistribution.__init__\<close> has a scale of at least \<open>0.0000001\<close>. The scale is
  never \<open>0\<close>, whatever the argument; for a NaN argument it is NaN. Location and metadata
  are stored as given.
\<close>

theorem LSDistribution_scale_floor_unless_nan:
  "(s \<noteq> FNaN \<longrightarrow> efloat_le (Fin (1 / 10000000)) (ls_scale (LSDistribution_init l s m))) \<and>
   ls_scale (LSDistribution_init l s m) \<noteq> Fin 0 \<and>
   ls_scale (LSDistribution_init l FNaN m) = FNaN \<and>
   ls_loc (LSDistribution_init l s m) = l \<and> ls_metadata (LSDistribution_init l s m) = m"
  by (cases s) (simp_all add: LSDistribution_init_def efloat_max_def)

text \<open>The theorem at \<^verbatim>\<open>LSDistribution(0, -1)\<close>, whose scale is \<open>0.0000001\<close>.\<close>

theorem LSDistribution_scale_floor_unless_nan_witness:
  "efloat_le (Fin (1 / 10000000)) (ls_scale (LSDistribution_init (Fin 0) (Fin (- 1)) None)) \<and>
   ls_scale (LSDistribution_init (Fin 0) (Fin (- 1)) None) = Fin (1 / 10000000)"
  using LSDistribution_scale_floor_unless_nan [of "Fin (- 1)" "Fin 0" None]
  by (simp add: LSDistribution_init_def efloat_max_Fin)

text \<open>
  Claim C8 as stated fails. \<^verbatim>\<open>LSDistribution(0, float("nan"))\<close> has the scale NaN,
  which is not at least \<open>0.0000001\<close>.
\<close>

theorem LSDistribution_scale_nan:
  "\<not> efloat_le (Fin (1 / 10000000)) (ls_scale (LSDistribution_init (Fin 0) FNaN None))"
  by (simp add: LSDistribution_init_def efloat_max_def)




end
